theory Spec2Isabelle
  imports Main "HOL-Library.AList"
begin

section \<open>The forwarding proxy of \<^verbatim>\<open>proxy/server.js\<close>\<close>

text \<open>
  The server is one request handler (\<^verbatim>\<open>server\<close>), the endpoint handler
  \<^verbatim>\<open>handleProxy\<close>, the forwarding engine \<^verbatim>\<open>forwardRequest\<close> and the
  validator \<^verbatim>\<open>isValidUrl\<close>. The model keeps these four functions and their
  names. What the program gets from the platform (the two URL parsers, the clock, the
  outbound HTTP client) is a parameter of the model, the record \<open>runtime\<close>; the
  response object \<^verbatim>\<open>res\<close> is an explicit state that every handler returns
  updated. The listeners the program registers on the outbound request are a step
  function over the events of that request. Console output is not modelled, and the
  inbound request is taken to deliver its chunks and end.
\<close>

subsection \<open>Strings, buffers and JSON\<close>

text \<open>
  A \<^verbatim>\<open>Buffer\<close> is a list of bytes (\<open>char\<close> is the 8-bit character). Strings
  the program only copies or compares (method, URL, header names and values, error
  messages) are \<open>string\<close>. A string made by \<^verbatim>\<open>chunk.toString()\<close> is kept as its
  list of Unicode code points, since the decoding decides what the bytes become.
\<close>

type_synonym bytes = "char list"
type_synonym ustring = "nat list"

text \<open>
  \<^verbatim>\<open>Buffer.prototype.toString()\<close> decodes UTF-8: every maximal ill-formed part
  becomes U+FFFD, a truncated sequence at the end of the buffer too. The arguments are
  the number of continuation bytes still needed, the code point collected so far, and
  the bounds the next continuation byte has to meet.
\<close>

function utf8_decode :: "nat \<Rightarrow> nat \<Rightarrow> nat \<Rightarrow> nat \<Rightarrow> bytes \<Rightarrow> ustring" where
  "utf8_decode needed cp lo hi [] = (if needed = 0 then [] else [0xFFFD])"
| "utf8_decode needed cp lo hi (c # cs) =
     (let b = (of_char c :: nat) in
      if needed = 0 then
        (if b < 0x80 then b # utf8_decode 0 0 0x80 0xBF cs
         else if 0xC2 \<le> b \<and> b \<le> 0xDF then utf8_decode 1 (b mod 32) 0x80 0xBF cs
         else if 0xE0 \<le> b \<and> b \<le> 0xEF then
           utf8_decode 2 (b mod 16) (if b = 0xE0 then 0xA0 else 0x80)
             (if b = 0xED then 0x9F else 0xBF) cs
         else if 0xF0 \<le> b \<and> b \<le> 0xF4 then
           utf8_decode 3 (b mod 8) (if b = 0xF0 then 0x90 else 0x80)
             (if b = 0xF4 then 0x8F else 0xBF) cs
         else 0xFFFD # utf8_decode 0 0 0x80 0xBF cs)
      else if b < lo \<or> hi < b then 0xFFFD # utf8_decode 0 0 0x80 0xBF (c # cs)
      else if needed = 1 then (cp * 64 + b mod 64) # utf8_decode 0 0 0x80 0xBF cs
      else utf8_decode (needed - 1) (cp * 64 + b mod 64) 0x80 0xBF cs)"
  by pat_completeness auto
termination
  by (relation "measure (\<lambda>(needed, cp, lo, hi, bs). 2 * length bs + (if needed = 0 then 0 else 1))")
     auto

definition toString :: "bytes \<Rightarrow> ustring" where
  "toString chunk = utf8_decode 0 0 0x80 0xBF chunk"

text \<open>
  Writing a string to a stream (\<^verbatim>\<open>res.end(str)\<close>, \<^verbatim>\<open>proxyReq.write(str)\<close>)
  encodes it as UTF-8 again; a lone surrogate is written as U+FFFD.
\<close>

definition utf8_encode_char :: "nat \<Rightarrow> bytes" where
  "utf8_encode_char cp =
     (if cp < 0x80 then [char_of cp]
      else if cp < 0x800 then [char_of (0xC0 + cp div 64), char_of (0x80 + cp mod 64)]
      else if cp < 0x10000 then
        (if 0xD800 \<le> cp \<and> cp \<le> 0xDFFF then [char_of (0xEF::nat), char_of (0xBF::nat), char_of (0xBD::nat)]
         else [char_of (0xE0 + cp div 4096), char_of (0x80 + cp div 64 mod 64),
               char_of (0x80 + cp mod 64)])
      else [char_of (0xF0 + cp div 262144), char_of (0x80 + cp div 4096 mod 64),
            char_of (0x80 + cp div 64 mod 64), char_of (0x80 + cp mod 64)])"

definition utf8_encode :: "ustring \<Rightarrow> bytes" where
  "utf8_encode s = concat (map utf8_encode_char s)"

text \<open>\<^verbatim>\<open>String.prototype.toLowerCase\<close> on header names (ASCII letters).\<close>

definition lower_char :: "char \<Rightarrow> char" where
  "lower_char c =
     (let n = (of_char c :: nat) in if 65 \<le> n \<and> n \<le> 90 then char_of (n + 32) else c)"

definition toLowerCase :: "string \<Rightarrow> string" where
  "toLowerCase s = map lower_char s"

text \<open>
  The objects handed to \<^verbatim>\<open>JSON.stringify\<close>. The body of a synthesized response
  is kept as the object that was serialised, so that its fields can be read.
\<close>

datatype json = JString string | JArray "json list" | JObject "(string \<times> json) list"

datatype payload = Text ustring | JSON_stringify json

text \<open>
  A header value is a string or, for a header that may repeat, an array of strings.
  A plain JavaScript object (\<^verbatim>\<open>req.headers\<close>, \<^verbatim>\<open>proxyRes.headers\<close>,
  \<^verbatim>\<open>options.headers\<close>) is the list of its properties in insertion order;
  assigning to a property that exists keeps its place, which is \<open>AList.update\<close>.
  Property names are compared as they are, case included. (JavaScript lists
  integer-like names first; header names of that form are not treated specially
  here, and none of the names below is one.)
\<close>

datatype header_value = Single string | Multiple "string list"

type_synonym js_object = "(string \<times> header_value) list"

text \<open>Object spread \<^verbatim>\<open>{...obj}\<close>: the properties are defined one by one, in order.\<close>

definition spread :: "js_object \<Rightarrow> js_object" where
  "spread obj = fold (\<lambda>(k, v). AList.update k v) obj []"

text \<open>
  The value of \<^verbatim>\<open>parsedUrl.query.url\<close>: absent (\<open>None\<close>, JavaScript's
  \<^verbatim>\<open>undefined\<close>), a string, or an array of strings when the parameter repeats.
\<close>

datatype query_value = QString string | QArray "string list"

fun truthy :: "query_value option \<Rightarrow> bool" where
  "truthy None = False"
| "truthy (Some (QString s)) = (s \<noteq> [])"
| "truthy (Some (QArray xs)) = True"

fun join_comma :: "string list \<Rightarrow> string" where
  "join_comma [] = []"
| "join_comma [x] = x"
| "join_comma (x # y # ys) = x @ '','' @ join_comma (y # ys)"

text \<open>The string conversion the \<^verbatim>\<open>URL\<close> constructor applies to its argument.\<close>

fun js_to_string :: "query_value \<Rightarrow> string" where
  "js_to_string (QString s) = s"
| "js_to_string (QArray xs) = join_comma xs"

fun to_json :: "query_value \<Rightarrow> json" where
  "to_json (QString s) = JString s"
| "to_json (QArray xs) = JArray (map JString xs)"

subsection \<open>The platform\<close>

text \<open>The fields of a WHATWG \<^verbatim>\<open>URL\<close> object that \<^verbatim>\<open>forwardRequest\<close> reads.\<close>

record url_object =
  protocol :: string
  hostname :: string
  port :: string
  pathname :: string
  search :: string

text \<open>The result of the legacy \<^verbatim>\<open>url.parse(req.url, true)\<close>.\<close>

record parsed_url =
  parsed_pathname :: "string option"
  query :: "string \<rightharpoonup> query_value"

datatype transport = Http | Https

record request_options =
  opt_hostname :: string
  opt_port :: string
  opt_path :: string
  opt_method :: string
  opt_headers :: js_object
  opt_timeout :: nat

text \<open>
  What a \<^verbatim>\<open>ClientRequest\<close> emits, as far as the program can observe it:
  \<open>Response\<close> is the call of the callback given to \<^verbatim>\<open>protocol.request\<close> with
  a \<^verbatim>\<open>proxyRes\<close> of that status code and those headers, \<open>Data\<close> and \<open>End\<close>
  are the \<^verbatim>\<open>'data'\<close> and \<^verbatim>\<open>'end'\<close> events of \<^verbatim>\<open>proxyRes\<close>,
  \<open>Error\<close> and \<open>Timeout\<close> the \<^verbatim>\<open>'error'\<close> and \<^verbatim>\<open>'timeout'\<close>
  events of the request. Node emits \<^verbatim>\<open>'timeout'\<close> when the socket has been idle
  for \<^verbatim>\<open>options.timeout\<close> milliseconds and does nothing else: the request goes on
  unless a listener destroys it. A connection that breaks after the response has begun
  is reported on \<^verbatim>\<open>proxyRes\<close> by events the program has no listener for; the
  sequence then ends without \<open>End\<close>.
\<close>

datatype client_event =
    Response nat js_object
  | Data bytes
  | End
  | Error string
  | Timeout

text \<open>
  A \<^verbatim>\<open>ClientRequest\<close>: given what was written to it before \<^verbatim>\<open>end()\<close>,
  the events it emits, in order.
\<close>

type_synonym client_request = "ustring option \<Rightarrow> client_event list"

text \<open>
  The platform. \<open>URL_new\<close> is \<^verbatim>\<open>new URL(s)\<close>, \<open>Inl msg\<close> when it throws;
  \<open>request\<close> is \<^verbatim>\<open>http.request\<close> or \<^verbatim>\<open>https.request\<close>, \<open>Inl msg\<close>
  when the call itself throws; \<open>now\<close> is \<^verbatim>\<open>new Date().toISOString()\<close>.
\<close>

record runtime =
  url_parse :: "string \<Rightarrow> parsed_url"
  URL_new :: "string \<Rightarrow> string + url_object"
  request :: "transport \<Rightarrow> request_options \<Rightarrow> string + client_request"
  now :: string

subsection \<open>The response object\<close>

text \<open>
  \<^verbatim>\<open>res\<close>: the header table filled by \<^verbatim>\<open>setHeader\<close> (keyed by the
  lower-cased name, holding the name as given and the value), the status code once the
  head is written, and the body once the response is ended.
\<close>

type_synonym header_table = "(string \<times> string \<times> header_value) list"

record server_response =
  outHeaders :: header_table
  statusCode :: "nat option"
  ended :: "payload option"

definition new_response :: server_response where
  "new_response = \<lparr>outHeaders = [], statusCode = None, ended = None\<rparr>"

definition setHeader :: "string \<Rightarrow> header_value \<Rightarrow> header_table \<Rightarrow> header_table" where
  "setHeader name v table = AList.update (toLowerCase name) (name, v) table"

definition getHeader :: "header_table \<Rightarrow> string \<Rightarrow> header_value option" where
  "getHeader table name = map_option snd (map_of table (toLowerCase name))"

definition setHeaders :: "js_object \<Rightarrow> header_table \<Rightarrow> header_table" where
  "setHeaders obj table = fold (\<lambda>(k, v) t. if k = [] then t else setHeader k v t) obj table"

text \<open>
  \<^verbatim>\<open>res.writeHead(status, headers)\<close> throws when the head is already written or
  the status code is outside 100..999; otherwise it merges \<^verbatim>\<open>headers\<close> into the
  table with \<^verbatim>\<open>setHeader\<close> and writes the head.
\<close>

definition writeHead :: "nat \<Rightarrow> js_object \<Rightarrow> server_response \<Rightarrow> string + server_response" where
  "writeHead status hdrs res =
     (if statusCode res \<noteq> None then Inl ''ERR_HTTP_HEADERS_SENT''
      else if status < 100 \<or> 999 < status then Inl ''ERR_HTTP_INVALID_STATUS_CODE''
      else Inr (res\<lparr>outHeaders := setHeaders hdrs (outHeaders res), statusCode := Some status\<rparr>))"

definition end_response :: "payload \<Rightarrow> server_response \<Rightarrow> server_response" where
  "end_response p res = (if ended res = None then res\<lparr>ended := Some p\<rparr> else res)"

text \<open>\<^verbatim>\<open>res.writeHead(status, headers); res.end(p)\<close>.\<close>

definition send :: "nat \<Rightarrow> js_object \<Rightarrow> payload \<Rightarrow> server_response \<Rightarrow> string + server_response" where
  "send status hdrs p res =
     (case writeHead status hdrs res of Inl e \<Rightarrow> Inl e | Inr r \<Rightarrow> Inr (end_response p r))"

subsection \<open>Requests, outcomes and the outbound exchange\<close>

text \<open>
  The inbound request: \<^verbatim>\<open>req.method\<close>, \<^verbatim>\<open>req.url\<close>, \<^verbatim>\<open>req.headers\<close>
  and the chunks its \<^verbatim>\<open>'data'\<close> events deliver before \<^verbatim>\<open>'end'\<close>.
\<close>

record inbound_request =
  req_method :: string
  req_url :: string
  req_headers :: js_object
  req_chunks :: "bytes list"

text \<open>
  What \<^verbatim>\<open>forwardRequest\<close> hands to the platform: the module it chose, the
  \<^verbatim>\<open>options\<close> object, and the body it wrote (\<open>None\<close> when it wrote nothing).
\<close>

record outbound_request =
  transport :: transport
  options :: request_options
  written :: "ustring option"

text \<open>
  What handling one inbound request comes to: the state of \<^verbatim>\<open>res\<close>, the outbound
  request if one was made, and the exception that escaped an event listener, if any.
\<close>

record outcome =
  response :: server_response
  outbound :: "outbound_request option"
  uncaught :: "string option"

definition finish :: "server_response \<Rightarrow> string + server_response \<Rightarrow> outcome" where
  "finish res0 r =
     (case r of
        Inl e \<Rightarrow> \<lparr>response = res0, outbound = None, uncaught = Some e\<rparr>
      | Inr res' \<Rightarrow> \<lparr>response = res', outbound = None, uncaught = None\<rparr>)"

text \<open>
  The header table a \<^verbatim>\<open>ClientRequest\<close> builds from \<^verbatim>\<open>options.headers\<close>:
  its constructor calls \<^verbatim>\<open>setHeader\<close> for every property, in order, so of two
  names that differ in case only the later one is sent.
\<close>

definition request_header_table :: "js_object \<Rightarrow> header_table" where
  "request_header_table hdrs = fold (\<lambda>(k, v). setHeader k v) hdrs []"

text \<open>
  The state the listeners of \<^verbatim>\<open>forwardRequest\<close> share: \<^verbatim>\<open>res\<close>, the
  \<^verbatim>\<open>proxyRes\<close> the callback was called with (its status code and headers; \<open>None\<close>
  before the call, when no \<^verbatim>\<open>'data'\<close> or \<^verbatim>\<open>'end'\<close> listener exists yet), and
  the variable \<^verbatim>\<open>responseBody\<close>.
\<close>

record exchange =
  res :: server_response
  proxyRes :: "(nat \<times> js_object) option"
  responseBody :: ustring

text \<open>
  One event, handled by the listeners the source registers (lines 134-156). There is a
  listener for the response callback, for \<^verbatim>\<open>'data'\<close> and \<^verbatim>\<open>'end'\<close> of
  \<^verbatim>\<open>proxyRes\<close> and for \<^verbatim>\<open>'error'\<close> of \<^verbatim>\<open>proxyReq\<close>; none for
  \<^verbatim>\<open>'timeout'\<close>. \<open>Inl\<close> is an exception thrown inside a listener.
\<close>

fun on_event :: "exchange \<Rightarrow> client_event \<Rightarrow> string + exchange" where
  "on_event x (Response status hdrs) = Inr (x\<lparr>proxyRes := Some (status, hdrs), responseBody := []\<rparr>)"
| "on_event x (Data chunk) =
     (case proxyRes x of
        None \<Rightarrow> Inr x
      | Some _ \<Rightarrow> Inr (x\<lparr>responseBody := responseBody x @ toString chunk\<rparr>))"
| "on_event x End =
     (case proxyRes x of
        None \<Rightarrow> Inr x
      | Some (status, hdrs) \<Rightarrow>
          (case send status hdrs (Text (responseBody x)) (res x) of
             Inl e \<Rightarrow> Inl e
           | Inr r \<Rightarrow> Inr (x\<lparr>res := r\<rparr>)))"
| "on_event x (Error message) =
     (case send 502 []
             (JSON_stringify (JObject [(''error'', JString ''Failed to reach external URL''),
                                       (''message'', JString message)]))
             (res x) of
        Inl e \<Rightarrow> Inl e
      | Inr r \<Rightarrow> Inr (x\<lparr>res := r\<rparr>))"
| "on_event x Timeout = Inr x"

text \<open>
  The events in order. An exception that escapes a listener is uncaught: the run stops
  with the state reached so far.
\<close>

fun run_events :: "exchange \<Rightarrow> client_event list \<Rightarrow> exchange \<times> string option" where
  "run_events x [] = (x, None)"
| "run_events x (e # es) =
     (case on_event x e of
        Inl err \<Rightarrow> (x, Some err)
      | Inr x' \<Rightarrow> run_events x' es)"

subsection \<open>The validator and the forwarding engine\<close>

definition isValidUrl :: "runtime \<Rightarrow> query_value \<Rightarrow> bool" where
  "isValidUrl rt targetUrl =
     (case URL_new rt (js_to_string targetUrl) of Inl _ \<Rightarrow> False | Inr _ \<Rightarrow> True)"

definition proxy_user_agent :: string where
  "proxy_user_agent = ''NetSuite-Proxy/1.0.0 (Mozilla/5.0)''"

text \<open>The \<^verbatim>\<open>catch\<close> block of \<^verbatim>\<open>forwardRequest\<close> (lines 164-171).\<close>

definition internal_error :: "string \<Rightarrow> server_response \<Rightarrow> outcome" where
  "internal_error message res0 =
     finish res0
       (send 500 []
          (JSON_stringify (JObject [(''error'', JString ''Internal server error''),
                                    (''message'', JString message)]))
          res0)"

text \<open>
  The object literal \<^verbatim>\<open>options\<close> (lines 112-128). In \<^verbatim>\<open>headers\<close> the inbound
  headers are spread first and the three properties \<^verbatim>\<open>'User-Agent'\<close>,
  \<^verbatim>\<open>'host'\<close> and \<^verbatim>\<open>'accept-encoding'\<close> are defined after them, in this order.
\<close>

definition request_options_for :: "url_object \<Rightarrow> inbound_request \<Rightarrow> string \<Rightarrow> request_options" where
  "request_options_for targetUrlObj originalReq method =
     \<lparr>opt_hostname = hostname targetUrlObj,
      opt_port = port targetUrlObj,
      opt_path = pathname targetUrlObj @ search targetUrlObj,
      opt_method = method,
      opt_headers =
        AList.update ''accept-encoding'' (Single ''gzip, deflate'')
          (AList.update ''host'' (Single (hostname targetUrlObj))
            (AList.update ''User-Agent'' (Single proxy_user_agent)
              (spread (req_headers originalReq)))),
      opt_timeout = 30000\<rparr>"

text \<open>
  \<^verbatim>\<open>forwardRequest\<close> (lines 108-172). The body of \<^verbatim>\<open>try\<close> throws where
  \<^verbatim>\<open>new URL\<close> or \<^verbatim>\<open>protocol.request\<close> throws; the listeners run later, outside
  of it, on the events of the request.
\<close>

definition forwardRequest ::
  "runtime \<Rightarrow> inbound_request \<Rightarrow> server_response \<Rightarrow> query_value \<Rightarrow> string \<Rightarrow> ustring \<Rightarrow> outcome" where
  "forwardRequest rt originalReq res0 targetUrl method body =
     (case URL_new rt (js_to_string targetUrl) of
        Inl message \<Rightarrow> internal_error message res0
      | Inr targetUrlObj \<Rightarrow>
          (let opts = request_options_for targetUrlObj originalReq method;
               protocol_module = (if protocol targetUrlObj = ''https:'' then Https else Http)
           in case request rt protocol_module opts of
                Inl message \<Rightarrow> internal_error message res0
              | Inr proxyReq \<Rightarrow>
                  (let wr = (if body \<noteq> [] then Some body else None);
                       (x, err) = run_events \<lparr>res = res0, proxyRes = None, responseBody = []\<rparr>
                                    (proxyReq wr)
                   in \<lparr>response = res x,
                       outbound = Some \<lparr>transport = protocol_module, options = opts, written = wr\<rparr>,
                       uncaught = err\<rparr>)))"

subsection \<open>The endpoint handler and the dispatcher\<close>

text \<open>
  \<^verbatim>\<open>handleProxy\<close> (lines 70-103). \<^verbatim>\<open>!targetUrl\<close> holds for a missing
  parameter and for the empty string. The body is collected from the chunks of the
  inbound request, and \<^verbatim>\<open>forwardRequest\<close> is called when it has ended.
\<close>

definition handleProxy :: "runtime \<Rightarrow> inbound_request \<Rightarrow> server_response \<Rightarrow> parsed_url \<Rightarrow> outcome" where
  "handleProxy rt req res0 parsedUrl =
     (let missing =
            finish res0
              (send 400 []
                 (JSON_stringify
                    (JObject [(''error'', JString ''Missing URL parameter''),
                              (''usage'', JString ''POST /proxy?url=https://external-api-url''),
                              (''example'', JString ''POST /proxy?url=https://api.example.com/endpoint'')]))
                 res0);
          method = req_method req
      in case query parsedUrl ''url'' of
           None \<Rightarrow> missing
         | Some targetUrl \<Rightarrow>
             if \<not> truthy (Some targetUrl) then missing
             else if \<not> isValidUrl rt targetUrl then
               finish res0
                 (send 400 []
                    (JSON_stringify (JObject [(''error'', JString ''Invalid URL format''),
                                              (''target'', to_json targetUrl)]))
                    res0)
             else
               (let body = foldl (\<lambda>body chunk. body @ toString chunk) [] (req_chunks req)
                in forwardRequest rt req res0 targetUrl method body))"

text \<open>The headers the dispatcher sets on every response before it looks at the request.\<close>

definition preset_headers :: header_table where
  "preset_headers =
     setHeader ''Content-Type'' (Single ''application/json'')
       (setHeader ''Access-Control-Allow-Credentials'' (Single ''false'')
         (setHeader ''Access-Control-Allow-Headers'' (Single ''Content-Type, Authorization'')
           (setHeader ''Access-Control-Allow-Methods'' (Single ''GET, POST, PUT, DELETE, OPTIONS'')
             (setHeader ''Access-Control-Allow-Origin'' (Single ''*'') []))))"

text \<open>The request handler given to \<^verbatim>\<open>http.createServer\<close> (lines 30-65).\<close>

definition server :: "runtime \<Rightarrow> inbound_request \<Rightarrow> outcome" where
  "server rt req =
     (let res0 = new_response\<lparr>outHeaders := preset_headers\<rparr> in
      if req_method req = ''OPTIONS'' then finish res0 (send 200 [] (Text []) res0)
      else
        (let parsedUrl = url_parse rt (req_url req);
             path = parsed_pathname parsedUrl
         in if path = Some ''/health'' \<or> path = Some ''/'' then
              finish res0
                (send 200 []
                   (JSON_stringify
                      (JObject [(''status'', JString ''ok''),
                                (''service'', JString ''NetSuite External URL Proxy''),
                                (''version'', JString ''1.0.0''),
                                (''timestamp'', JString (now rt))]))
                   res0)
            else if path = Some ''/proxy'' then handleProxy rt req res0 parsedUrl
            else finish res0 (send 404 [] (JSON_stringify (JObject [(''error'', JString ''Not found'')])) res0)))"

text \<open>The fields of a JSON body, for reading a synthesized response.\<close>

fun json_field :: "payload option \<Rightarrow> string \<Rightarrow> json option" where
  "json_field (Some (JSON_stringify (JObject props))) name = map_of props name"
| "json_field _ name = None"

subsection \<open>Example platforms and requests\<close>

text \<open>
  Concrete inputs for the examples below. \<open>emits evs\<close> is an outbound client that
  never throws and emits the events \<open>evs\<close>, whatever is requested and written;
  \<open>echo_target\<close> answers 200 with the body that was written to it;
  \<open>checks_path evs\<close> throws, as \<^verbatim>\<open>http.request\<close> does, when the path has a
  space in it, and is \<open>emits evs\<close> otherwise.
  \<open>example_URL_new\<close> has the values of \<^verbatim>\<open>new URL\<close> at the three URLs used, and
  throws elsewhere, as \<^verbatim>\<open>new URL\<close> does at \<^verbatim>\<open>''\<close> and \<^verbatim>\<open>'not-a-url'\<close>.
\<close>

definition emits :: "client_event list \<Rightarrow> transport \<Rightarrow> request_options \<Rightarrow> string + client_request" where
  "emits evs p opts = Inr (\<lambda>w. evs)"

definition echo_target :: "transport \<Rightarrow> request_options \<Rightarrow> string + client_request" where
  "echo_target p opts =
     Inr (\<lambda>w. Response 200 [(''content-type'', Single ''application/json'')]
               # (case w of None \<Rightarrow> [] | Some b \<Rightarrow> [Data (utf8_encode b)]) @ [End])"

definition checks_path :: "client_event list \<Rightarrow> transport \<Rightarrow> request_options \<Rightarrow> string + client_request" where
  "checks_path evs p opts =
     (if CHR '' '' \<in> set (opt_path opts) then Inl ''Request path contains unescaped characters''
      else Inr (\<lambda>w. evs))"

definition echo_url :: url_object where
  "echo_url = \<lparr>protocol = ''https:'', hostname = ''example.test'', port = [], pathname = ''/echo'', search = []\<rparr>"

definition ftp_url :: url_object where
  "ftp_url = \<lparr>protocol = ''ftp:'', hostname = ''files.example'', port = [], pathname = ''/pub'', search = []\<rparr>"

definition data_url :: url_object where
  "data_url = \<lparr>protocol = ''data:'', hostname = [], port = [], pathname = ''text/plain, hello'', search = []\<rparr>"

definition example_URL_new :: "string \<Rightarrow> string + url_object" where
  "example_URL_new s =
     (if s = ''https://example.test/echo'' then Inr echo_url
      else if s = ''ftp://files.example/pub'' then Inr ftp_url
      else if s = ''data:text/plain, hello'' then Inr data_url
      else Inl ''Invalid URL'')"

definition proxy_query :: "query_value option \<Rightarrow> parsed_url" where
  "proxy_query v = \<lparr>parsed_pathname = Some ''/proxy'', query = (\<lambda>k. if k = ''url'' then v else None)\<rparr>"

definition example_url_parse :: "string \<Rightarrow> parsed_url" where
  "example_url_parse s =
     (if s = ''/proxy?url=https://example.test/echo'' then proxy_query (Some (QString ''https://example.test/echo''))
      else if s = ''/proxy?url=ftp://files.example/pub'' then proxy_query (Some (QString ''ftp://files.example/pub''))
      else if s = ''/proxy?url=not-a-url'' then proxy_query (Some (QString ''not-a-url''))
      else if s = ''/proxy?url='' then proxy_query (Some (QString []))
      else \<lparr>parsed_pathname = Some s, query = Map.empty\<rparr>)"

definition example_runtime :: "(transport \<Rightarrow> request_options \<Rightarrow> string + client_request) \<Rightarrow> runtime" where
  "example_runtime net =
     \<lparr>url_parse = example_url_parse, URL_new = example_URL_new, request = net,
      now = ''2026-02-09T10:00:00.000Z''\<rparr>"

definition example_request :: "string \<Rightarrow> string \<Rightarrow> bytes list \<Rightarrow> inbound_request" where
  "example_request m u chunks =
     \<lparr>req_method = m, req_url = u,
      req_headers = [(''host'', Single ''localhost:3000''), (''user-agent'', Single ''curl/8.0''),
                     (''content-type'', Single ''application/json'')],
      req_chunks = chunks\<rparr>"

section \<open>Properties\<close>

subsection \<open>Sending on a response that has not been started\<close>

lemma send_fresh:
  assumes "statusCode r = None" and "ended r = None" and "100 \<le> status" and "status \<le> 999"
  shows "send status hdrs p r =
           Inr (r\<lparr>outHeaders := setHeaders hdrs (outHeaders r), statusCode := Some status, ended := Some p\<rparr>)"
  using assms by (simp add: send_def writeHead_def end_response_def)

lemma send_sent: "statusCode r \<noteq> None \<Longrightarrow> send status hdrs p r = Inl ''ERR_HTTP_HEADERS_SENT''"
  by (simp add: send_def writeHead_def)

lemma setHeaders_Nil: "setHeaders [] table = table"
  by (simp add: setHeaders_def)

lemma eq_char_of_iff: "c = char_of (n::nat) \<longleftrightarrow> take_bit 8 n = of_char c"
  using char_of_eq_iff [of n c] by auto

subsection \<open>The validator\<close>

text \<open>
  C8. A call of the endpoint handler whose query has no \<^verbatim>\<open>url\<close> parameter answers
  with status 400 and the JSON body whose \<^verbatim>\<open>error\<close> field is
  \<^verbatim>\<open>Missing URL parameter\<close>, with its \<^verbatim>\<open>usage\<close> and \<^verbatim>\<open>example\<close>
  fields, and makes no outbound request. The response object is the fresh one the
  dispatcher passes, with any headers set on it.
\<close>

theorem handleProxy_missing_url:
  assumes "query parsedUrl ''url'' = None"
  shows "(let out = handleProxy rt req (new_response\<lparr>outHeaders := h\<rparr>) parsedUrl in
          statusCode (response out) = Some 400
        \<and> json_field (ended (response out)) ''error'' = Some (JString ''Missing URL parameter'')
        \<and> json_field (ended (response out)) ''usage''
             = Some (JString ''POST /proxy?url=https://external-api-url'')
        \<and> json_field (ended (response out)) ''example''
             = Some (JString ''POST /proxy?url=https://api.example.com/endpoint'')
        \<and> outbound out = None)"
  using assms
  by (simp add: handleProxy_def Let_def finish_def send_fresh new_response_def)

theorem handleProxy_missing_url_witness:
  "query (proxy_query None) ''url'' = None
   \<and> (let out = handleProxy (example_runtime (emits [])) (example_request ''GET'' ''/proxy'' [])
                   (new_response\<lparr>outHeaders := preset_headers\<rparr>) (proxy_query None) in
          statusCode (response out) = Some 400
        \<and> json_field (ended (response out)) ''error'' = Some (JString ''Missing URL parameter'')
        \<and> json_field (ended (response out)) ''usage''
             = Some (JString ''POST /proxy?url=https://external-api-url'')
        \<and> json_field (ended (response out)) ''example''
             = Some (JString ''POST /proxy?url=https://api.example.com/endpoint'')
        \<and> outbound out = None)"
proof -
  have h: "query (proxy_query None) ''url'' = None"
    by (simp add: proxy_query_def)
  show ?thesis
    using h handleProxy_missing_url [OF h, of "example_runtime (emits [])"
        "example_request ''GET'' ''/proxy'' []" preset_headers]
    by simp
qed

text \<open>
  C9. A \<^verbatim>\<open>url\<close> parameter that is present with the empty string as its value is
  handled exactly as a missing one, since the check is \<^verbatim>\<open>!targetUrl\<close>: the outcome
  is the outcome for the same query without the parameter, that is status 400 with
  \<^verbatim>\<open>Missing URL parameter\<close>, and not the \<^verbatim>\<open>Invalid URL format\<close> body, which
  would carry a \<^verbatim>\<open>target\<close> field.
\<close>

theorem empty_url_is_missing:
  assumes "query parsedUrl ''url'' = Some (QString [])"
  shows "handleProxy rt req res0 parsedUrl
           = handleProxy rt req res0 (parsedUrl\<lparr>query := (query parsedUrl)(''url'' := None)\<rparr>)
       \<and> (let out = handleProxy rt req (new_response\<lparr>outHeaders := h\<rparr>) parsedUrl in
            statusCode (response out) = Some 400
          \<and> json_field (ended (response out)) ''error'' = Some (JString ''Missing URL parameter'')
          \<and> json_field (ended (response out)) ''target'' = None
          \<and> outbound out = None)"
  using assms
  by (simp add: handleProxy_def Let_def finish_def send_fresh new_response_def)

theorem empty_url_is_missing_witness:
  "query (proxy_query (Some (QString []))) ''url'' = Some (QString [])
   \<and> handleProxy (example_runtime (emits [])) (example_request ''GET'' ''/proxy?url='' [])
         (new_response\<lparr>outHeaders := preset_headers\<rparr>) (proxy_query (Some (QString [])))
       = handleProxy (example_runtime (emits [])) (example_request ''GET'' ''/proxy?url='' [])
           (new_response\<lparr>outHeaders := preset_headers\<rparr>)
           ((proxy_query (Some (QString [])))\<lparr>query := (query (proxy_query (Some (QString []))))(''url'' := None)\<rparr>)
   \<and> (let out = handleProxy (example_runtime (emits [])) (example_request ''GET'' ''/proxy?url='' [])
                   (new_response\<lparr>outHeaders := preset_headers\<rparr>) (proxy_query (Some (QString []))) in
            statusCode (response out) = Some 400
          \<and> json_field (ended (response out)) ''error'' = Some (JString ''Missing URL parameter'')
          \<and> json_field (ended (response out)) ''target'' = None
          \<and> outbound out = None)"
proof -
  have h: "query (proxy_query (Some (QString []))) ''url'' = Some (QString [])"
    by (simp add: proxy_query_def)
  show ?thesis
    by (rule conjI [OF h empty_url_is_missing [OF h]])
qed

text \<open>
  C4, as amended. A \<^verbatim>\<open>url\<close> value that is not empty and for which
  \<^verbatim>\<open>new URL\<close> throws is answered with status 400 and the body
  \<^verbatim>\<open>{error: 'Invalid URL format', target: <the value>}\<close>, and no outbound request
  is made. For the empty string the claim as stated fails (the counterexample below):
  the empty string cannot be parsed either, but it is caught by the check before and
  the body has no \<^verbatim>\<open>target\<close> field.
\<close>

theorem invalid_url_rejected:
  assumes "query parsedUrl ''url'' = Some targetUrl"
    and "truthy (Some targetUrl)"
    and "\<not> isValidUrl rt targetUrl"
  shows "(let out = handleProxy rt req (new_response\<lparr>outHeaders := h\<rparr>) parsedUrl in
          statusCode (response out) = Some 400
        \<and> json_field (ended (response out)) ''error'' = Some (JString ''Invalid URL format'')
        \<and> json_field (ended (response out)) ''target'' = Some (to_json targetUrl)
        \<and> outbound out = None)"
  using assms
  by (simp add: handleProxy_def Let_def finish_def send_fresh new_response_def)

theorem invalid_url_rejected_witness:
  "query (proxy_query (Some (QString ''not-a-url''))) ''url'' = Some (QString ''not-a-url'')
   \<and> truthy (Some (QString ''not-a-url''))
   \<and> \<not> isValidUrl (example_runtime (emits [])) (QString ''not-a-url'')
   \<and> (let out = handleProxy (example_runtime (emits [])) (example_request ''GET'' ''/proxy?url=not-a-url'' [])
                   (new_response\<lparr>outHeaders := preset_headers\<rparr>) (proxy_query (Some (QString ''not-a-url''))) in
          statusCode (response out) = Some 400
        \<and> json_field (ended (response out)) ''error'' = Some (JString ''Invalid URL format'')
        \<and> json_field (ended (response out)) ''target'' = Some (JString ''not-a-url'')
        \<and> outbound out = None)"
proof -
  have q: "query (proxy_query (Some (QString ''not-a-url''))) ''url'' = Some (QString ''not-a-url'')"
    by (simp add: proxy_query_def)
  have t: "truthy (Some (QString ''not-a-url''))"
    by simp
  have v: "\<not> isValidUrl (example_runtime (emits [])) (QString ''not-a-url'')"
    by (simp add: isValidUrl_def example_runtime_def example_URL_new_def)
  show ?thesis
    using q t v invalid_url_rejected [OF q t v, of "example_request ''GET'' ''/proxy?url=not-a-url'' []" preset_headers]
    by simp
qed

theorem invalid_url_counterexample:
  "query (proxy_query (Some (QString []))) ''url'' = Some (QString [])
   \<and> \<not> isValidUrl (example_runtime (emits [])) (QString [])
   \<and> json_field (ended (response (handleProxy (example_runtime (emits []))
          (example_request ''GET'' ''/proxy?url='' [])
          (new_response\<lparr>outHeaders := preset_headers\<rparr>) (proxy_query (Some (QString [])))))) ''target''
      \<noteq> Some (to_json (QString []))"
  by (simp add: proxy_query_def isValidUrl_def example_runtime_def example_URL_new_def
      handleProxy_def Let_def finish_def send_fresh new_response_def)

subsection \<open>Running the events of the outbound request\<close>

lemma on_event_quiet:
  assumes "e \<noteq> End" and "\<forall>m. e \<noteq> Error m"
  shows "\<exists>y. on_event x e = Inr y \<and> res y = res x"
  using assms by (cases e; cases "proxyRes x") auto

lemma run_events_append_quiet:
  assumes "End \<notin> set pre" and "\<forall>m. Error m \<notin> set pre"
  shows "\<exists>x'. run_events x (pre @ es) = run_events x' es \<and> res x' = res x"
  using assms
proof (induction pre arbitrary: x)
  case Nil
  show ?case by (rule exI [of _ x]) simp
next
  case (Cons e pre)
  obtain y where y: "on_event x e = Inr y" "res y = res x"
    using on_event_quiet [of e x] Cons.prems by auto
  from Cons.IH [of y] Cons.prems obtain x' where
    "run_events y (pre @ es) = run_events x' es" "res x' = res y"
    by auto
  with y show ?case by auto
qed

lemma run_events_sent:
  assumes "statusCode (res x) \<noteq> None"
  shows "res (fst (run_events x es)) = res x"
  using assms
proof (induction es arbitrary: x)
  case Nil
  then show ?case by simp
next
  case (Cons e es)
  show ?case
  proof (cases "on_event x e")
    case (Inl err)
    then show ?thesis by simp
  next
    case (Inr y)
    then have "res y = res x"
      using Cons.prems by (cases e) (auto simp: send_sent split: option.splits prod.splits)
    with Cons.IH [of y] Cons.prems Inr show ?thesis by simp
  qed
qed

lemma run_events_data:
  assumes "proxyRes x \<noteq> None"
  shows "run_events x (map Data chunks @ es)
           = run_events (x\<lparr>responseBody := responseBody x @ concat (map toString chunks)\<rparr>) es"
  using assms
proof (induction chunks arbitrary: x)
  case Nil
  then show ?case by simp
next
  case (Cons c chunks)
  from Cons.prems obtain ps where ps: "proxyRes x = Some ps" by auto
  have "run_events x (map Data (c # chunks) @ es)
          = run_events (x\<lparr>responseBody := responseBody x @ toString c\<rparr>) (map Data chunks @ es)"
    using ps by simp
  also have "\<dots> = run_events (x\<lparr>responseBody := (responseBody x @ toString c) @ concat (map toString chunks)\<rparr>) es"
    using Cons.IH [of "x\<lparr>responseBody := responseBody x @ toString c\<rparr>"] ps by simp
  finally show ?case by simp
qed

lemma forwardRequest_forwarded:
  assumes "URL_new rt (js_to_string targetUrl) = Inr u"
    and "request rt (if protocol u = ''https:'' then Https else Http) (request_options_for u req m)
           = Inr proxyReq"
  shows "forwardRequest rt req res0 targetUrl m body =
     \<lparr>response = res (fst (run_events \<lparr>res = res0, proxyRes = None, responseBody = []\<rparr>
                               (proxyReq (if body \<noteq> [] then Some body else None)))),
      outbound = Some \<lparr>transport = (if protocol u = ''https:'' then Https else Http),
                       options = request_options_for u req m,
                       written = (if body \<noteq> [] then Some body else None)\<rparr>,
      uncaught = snd (run_events \<lparr>res = res0, proxyRes = None, responseBody = []\<rparr>
                        (proxyReq (if body \<noteq> [] then Some body else None)))\<rparr>"
  using assms
  by (simp add: forwardRequest_def Let_def split: prod.splits)

lemma internal_error_fresh:
  "internal_error message (new_response\<lparr>outHeaders := h\<rparr>) =
     \<lparr>response = \<lparr>outHeaders = h, statusCode = Some 500,
                   ended = Some (JSON_stringify (JObject [(''error'', JString ''Internal server error''),
                                                          (''message'', JString message)]))\<rparr>,
      outbound = None, uncaught = None\<rparr>"
  by (simp add: internal_error_def finish_def send_fresh new_response_def setHeaders_Nil)

lemma forwardRequest_thrown:
  assumes "URL_new rt (js_to_string targetUrl) = Inr u"
    and "request rt (if protocol u = ''https:'' then Https else Http) (request_options_for u req m)
           = Inl message"
  shows "forwardRequest rt req res0 targetUrl m body = internal_error message res0"
  using assms by (simp add: forwardRequest_def Let_def)

subsection \<open>Transport selection\<close>

text \<open>
  C3, as amended. For a target that parsed, the engine calls \<^verbatim>\<open>request\<close> of the
  encrypted module exactly when the scheme is \<^verbatim>\<open>https:\<close> and of the plain module
  for every other scheme: \<^verbatim>\<open>http:\<close>, and any further scheme \<^verbatim>\<open>new URL\<close>
  accepts. No scheme is rejected. When that call returns a request, the request is
  forwarded over that transport, and the response is what the listeners make of the
  events of the request. When the call itself throws, nothing is forwarded and the
  engine answers 500 with \<^verbatim>\<open>Internal server error\<close> and the message thrown. The
  source has one test, \<^verbatim>\<open>targetUrlObj.protocol === 'https:' ? https : http\<close>; the
  counterexample below is a \<^verbatim>\<open>ftp:\<close> URL that passes the validator and is
  forwarded over the plain transport, the answer of the target relayed.
\<close>

theorem transport_selection:
  assumes "URL_new rt (js_to_string targetUrl) = Inr u"
  shows "(\<forall>proxyReq.
            request rt (if protocol u = ''https:'' then Https else Http) (request_options_for u req m)
              = Inr proxyReq
            \<longrightarrow> (\<exists>ob. outbound (forwardRequest rt req (new_response\<lparr>outHeaders := h\<rparr>) targetUrl m body) = Some ob
                   \<and> (transport ob = Https \<longleftrightarrow> protocol u = ''https:'')
                   \<and> (transport ob = Http \<longleftrightarrow> protocol u \<noteq> ''https:''))
                \<and> response (forwardRequest rt req (new_response\<lparr>outHeaders := h\<rparr>) targetUrl m body)
                    = res (fst (run_events \<lparr>res = new_response\<lparr>outHeaders := h\<rparr>, proxyRes = None,
                                            responseBody = []\<rparr>
                                  (proxyReq (if body \<noteq> [] then Some body else None)))))
       \<and> (\<forall>message.
            request rt (if protocol u = ''https:'' then Https else Http) (request_options_for u req m)
              = Inl message
            \<longrightarrow> outbound (forwardRequest rt req (new_response\<lparr>outHeaders := h\<rparr>) targetUrl m body) = None
                \<and> statusCode (response (forwardRequest rt req (new_response\<lparr>outHeaders := h\<rparr>) targetUrl m body))
                    = Some 500
                \<and> json_field (ended (response (forwardRequest rt req (new_response\<lparr>outHeaders := h\<rparr>) targetUrl m body)))
                     ''error'' = Some (JString ''Internal server error'')
                \<and> json_field (ended (response (forwardRequest rt req (new_response\<lparr>outHeaders := h\<rparr>) targetUrl m body)))
                     ''message'' = Some (JString message))"
proof (intro conjI allI impI)
  fix proxyReq
  assume r: "request rt (if protocol u = ''https:'' then Https else Http) (request_options_for u req m)
               = Inr proxyReq"
  show "\<exists>ob. outbound (forwardRequest rt req (new_response\<lparr>outHeaders := h\<rparr>) targetUrl m body) = Some ob
           \<and> (transport ob = Https \<longleftrightarrow> protocol u = ''https:'')
           \<and> (transport ob = Http \<longleftrightarrow> protocol u \<noteq> ''https:'')"
    by (simp add: forwardRequest_forwarded [OF assms r])
  show "response (forwardRequest rt req (new_response\<lparr>outHeaders := h\<rparr>) targetUrl m body)
          = res (fst (run_events \<lparr>res = new_response\<lparr>outHeaders := h\<rparr>, proxyRes = None,
                                  responseBody = []\<rparr>
                        (proxyReq (if body \<noteq> [] then Some body else None))))"
    by (simp only: forwardRequest_forwarded [OF assms r]) simp
next
  fix message
  assume t: "request rt (if protocol u = ''https:'' then Https else Http) (request_options_for u req m)
               = Inl message"
  have e: "forwardRequest rt req (new_response\<lparr>outHeaders := h\<rparr>) targetUrl m body
             = internal_error message (new_response\<lparr>outHeaders := h\<rparr>)"
    by (rule forwardRequest_thrown [OF assms t])
  show "outbound (forwardRequest rt req (new_response\<lparr>outHeaders := h\<rparr>) targetUrl m body) = None"
    by (simp add: e internal_error_fresh)
  show "statusCode (response (forwardRequest rt req (new_response\<lparr>outHeaders := h\<rparr>) targetUrl m body))
          = Some 500"
    by (simp add: e internal_error_fresh)
  show "json_field (ended (response (forwardRequest rt req (new_response\<lparr>outHeaders := h\<rparr>) targetUrl m body)))
          ''error'' = Some (JString ''Internal server error'')"
    by (simp add: e internal_error_fresh)
  show "json_field (ended (response (forwardRequest rt req (new_response\<lparr>outHeaders := h\<rparr>) targetUrl m body)))
          ''message'' = Some (JString message)"
    by (simp add: e internal_error_fresh)
qed

theorem transport_selection_witness:
  "(\<exists>ob. outbound (forwardRequest (example_runtime (checks_path [Response 200 [], End]))
             (example_request ''GET'' ''/proxy?url=https://example.test/echo'' [])
             (new_response\<lparr>outHeaders := preset_headers\<rparr>) (QString ''https://example.test/echo'') ''GET'' []) = Some ob
          \<and> transport ob = Https)
   \<and> statusCode (response (forwardRequest (example_runtime (checks_path [Response 200 [], End]))
             (example_request ''GET'' ''/proxy?url=https://example.test/echo'' [])
             (new_response\<lparr>outHeaders := preset_headers\<rparr>) (QString ''https://example.test/echo'') ''GET'' [])) = Some 200
   \<and> outbound (forwardRequest (example_runtime (checks_path [Response 200 [], End]))
             (example_request ''GET'' ''/proxy?url=data:text/plain, hello'' [])
             (new_response\<lparr>outHeaders := preset_headers\<rparr>) (QString ''data:text/plain, hello'') ''GET'' []) = None
   \<and> statusCode (response (forwardRequest (example_runtime (checks_path [Response 200 [], End]))
             (example_request ''GET'' ''/proxy?url=data:text/plain, hello'' [])
             (new_response\<lparr>outHeaders := preset_headers\<rparr>) (QString ''data:text/plain, hello'') ''GET'' [])) = Some 500"
proof -
  let ?rt = "example_runtime (checks_path [Response 200 [], End])"
  let ?req1 = "example_request ''GET'' ''/proxy?url=https://example.test/echo'' []"
  let ?req2 = "example_request ''GET'' ''/proxy?url=data:text/plain, hello'' []"
  have a: "URL_new ?rt (js_to_string (QString ''https://example.test/echo'')) = Inr echo_url"
    by (simp add: example_runtime_def example_URL_new_def)
  have b: "request ?rt (if protocol echo_url = ''https:'' then Https else Http)
             (request_options_for echo_url ?req1 ''GET'') = Inr (\<lambda>w. [Response 200 [], End])"
    by (simp add: example_runtime_def checks_path_def request_options_for_def echo_url_def)
  have s: "protocol echo_url = ''https:''"
    by (simp add: echo_url_def)
  have run: "res (fst (run_events \<lparr>res = new_response\<lparr>outHeaders := preset_headers\<rparr>, proxyRes = None,
                                   responseBody = []\<rparr> [Response 200 [], End]))
               = \<lparr>outHeaders = preset_headers, statusCode = Some 200, ended = Some (Text [])\<rparr>"
    by (simp add: send_fresh new_response_def setHeaders_Nil)
  have c: "URL_new ?rt (js_to_string (QString ''data:text/plain, hello'')) = Inr data_url"
    by (simp add: example_runtime_def example_URL_new_def)
  have d: "request ?rt (if protocol data_url = ''https:'' then Https else Http)
             (request_options_for data_url ?req2 ''GET'') = Inl ''Request path contains unescaped characters''"
    by (simp add: example_runtime_def checks_path_def request_options_for_def data_url_def)
  from transport_selection [OF a, of ?req1 "''GET''" preset_headers "[]"] b s run
  have one: "(\<exists>ob. outbound (forwardRequest ?rt ?req1 (new_response\<lparr>outHeaders := preset_headers\<rparr>)
                       (QString ''https://example.test/echo'') ''GET'' []) = Some ob \<and> transport ob = Https)
             \<and> statusCode (response (forwardRequest ?rt ?req1 (new_response\<lparr>outHeaders := preset_headers\<rparr>)
                       (QString ''https://example.test/echo'') ''GET'' [])) = Some 200"
    by auto
  from transport_selection [OF c, of ?req2 "''GET''" preset_headers "[]"] d
  have two: "outbound (forwardRequest ?rt ?req2 (new_response\<lparr>outHeaders := preset_headers\<rparr>)
                       (QString ''data:text/plain, hello'') ''GET'' []) = None
             \<and> statusCode (response (forwardRequest ?rt ?req2 (new_response\<lparr>outHeaders := preset_headers\<rparr>)
                       (QString ''data:text/plain, hello'') ''GET'' [])) = Some 500"
    by blast
  from one two show ?thesis by blast
qed

theorem transport_selection_counterexample:
  "isValidUrl (example_runtime (emits [Response 200 [], End])) (QString ''ftp://files.example/pub'')
   \<and> URL_new (example_runtime (emits [Response 200 [], End])) (js_to_string (QString ''ftp://files.example/pub'')) = Inr ftp_url
   \<and> protocol ftp_url \<noteq> ''http:'' \<and> protocol ftp_url \<noteq> ''https:''
   \<and> map_option transport
        (outbound (handleProxy (example_runtime (emits [Response 200 [], End]))
           (example_request ''GET'' ''/proxy?url=ftp://files.example/pub'' [])
           (new_response\<lparr>outHeaders := preset_headers\<rparr>)
           (proxy_query (Some (QString ''ftp://files.example/pub''))))) = Some Http
   \<and> statusCode (response (handleProxy (example_runtime (emits [Response 200 [], End]))
           (example_request ''GET'' ''/proxy?url=ftp://files.example/pub'' [])
           (new_response\<lparr>outHeaders := preset_headers\<rparr>)
           (proxy_query (Some (QString ''ftp://files.example/pub''))))) = Some 200"
  by (simp add: isValidUrl_def example_runtime_def example_URL_new_def ftp_url_def
      handleProxy_def proxy_query_def example_request_def forwardRequest_def Let_def emits_def
      send_fresh new_response_def)

subsection \<open>The catch block after validation\<close>

text \<open>
  C10. A target that the validator accepted parses again in \<^verbatim>\<open>forwardRequest\<close>:
  \<^verbatim>\<open>new URL\<close> returns a URL object for it and does not throw. The engine then
  ends in its \<^verbatim>\<open>catch\<close> block (status 500, \<^verbatim>\<open>Internal server error\<close>) with
  a given message exactly when the call of \<^verbatim>\<open>protocol.request\<close> that it makes
  throws that message: the block is not reached through the parsing of the URL.
\<close>

theorem validated_url_reparses:
  assumes "isValidUrl rt targetUrl"
  shows "\<exists>u. URL_new rt (js_to_string targetUrl) = Inr u
           \<and> (\<forall>message.
                 forwardRequest rt req (new_response\<lparr>outHeaders := h\<rparr>) targetUrl m body
                   = internal_error message (new_response\<lparr>outHeaders := h\<rparr>)
                 \<longleftrightarrow> request rt (if protocol u = ''https:'' then Https else Http)
                       (request_options_for u req m) = Inl message)"
proof -
  from assms obtain u where u: "URL_new rt (js_to_string targetUrl) = Inr u"
    by (auto simp: isValidUrl_def split: sum.splits)
  have "forwardRequest rt req (new_response\<lparr>outHeaders := h\<rparr>) targetUrl m body
          = internal_error message (new_response\<lparr>outHeaders := h\<rparr>)
        \<longleftrightarrow> request rt (if protocol u = ''https:'' then Https else Http)
              (request_options_for u req m) = Inl message" for message
  proof (cases "request rt (if protocol u = ''https:'' then Https else Http) (request_options_for u req m)")
    case (Inl thrown)
    have "internal_error thrown (new_response\<lparr>outHeaders := h\<rparr>)
            = internal_error message (new_response\<lparr>outHeaders := h\<rparr>) \<longleftrightarrow> thrown = message"
      by (simp add: internal_error_fresh)
    then show ?thesis
      by (simp add: forwardRequest_thrown [OF u Inl] Inl)
  next
    case (Inr proxyReq)
    have "outbound (forwardRequest rt req (new_response\<lparr>outHeaders := h\<rparr>) targetUrl m body) \<noteq> None"
      by (simp add: forwardRequest_forwarded [OF u Inr])
    moreover have "outbound (internal_error message (new_response\<lparr>outHeaders := h\<rparr>)) = None"
      by (simp add: internal_error_fresh)
    ultimately have "forwardRequest rt req (new_response\<lparr>outHeaders := h\<rparr>) targetUrl m body
                       \<noteq> internal_error message (new_response\<lparr>outHeaders := h\<rparr>)"
      by metis
    then show ?thesis
      by (simp add: Inr)
  qed
  with u show ?thesis by blast
qed

theorem validated_url_reparses_witness:
  "isValidUrl (example_runtime (checks_path [])) (QString ''https://example.test/echo'')
   \<and> (\<forall>message. forwardRequest (example_runtime (checks_path []))
          (example_request ''GET'' ''/proxy?url=https://example.test/echo'' [])
          (new_response\<lparr>outHeaders := preset_headers\<rparr>) (QString ''https://example.test/echo'') ''GET'' []
        \<noteq> internal_error message (new_response\<lparr>outHeaders := preset_headers\<rparr>))
   \<and> isValidUrl (example_runtime (checks_path [])) (QString ''data:text/plain, hello'')
   \<and> forwardRequest (example_runtime (checks_path []))
          (example_request ''GET'' ''/proxy?url=data:text/plain, hello'' [])
          (new_response\<lparr>outHeaders := preset_headers\<rparr>) (QString ''data:text/plain, hello'') ''GET'' []
        = internal_error ''Request path contains unescaped characters''
            (new_response\<lparr>outHeaders := preset_headers\<rparr>)"
proof -
  let ?rt = "example_runtime (checks_path [])"
  let ?req1 = "example_request ''GET'' ''/proxy?url=https://example.test/echo'' []"
  let ?req2 = "example_request ''GET'' ''/proxy?url=data:text/plain, hello'' []"
  have v1: "isValidUrl ?rt (QString ''https://example.test/echo'')"
    by (simp add: isValidUrl_def example_runtime_def example_URL_new_def)
  have v2: "isValidUrl ?rt (QString ''data:text/plain, hello'')"
    by (simp add: isValidUrl_def example_runtime_def example_URL_new_def)
  have a: "URL_new ?rt (js_to_string (QString ''https://example.test/echo'')) = Inr echo_url"
    by (simp add: example_runtime_def example_URL_new_def)
  have c: "URL_new ?rt (js_to_string (QString ''data:text/plain, hello'')) = Inr data_url"
    by (simp add: example_runtime_def example_URL_new_def)
  have b: "\<forall>message. request ?rt (if protocol echo_url = ''https:'' then Https else Http)
             (request_options_for echo_url ?req1 ''GET'') \<noteq> Inl message"
    by (simp add: example_runtime_def checks_path_def request_options_for_def echo_url_def)
  have d: "request ?rt (if protocol data_url = ''https:'' then Https else Http)
             (request_options_for data_url ?req2 ''GET'') = Inl ''Request path contains unescaped characters''"
    by (simp add: example_runtime_def checks_path_def request_options_for_def data_url_def)
  from validated_url_reparses [OF v1, of ?req1 preset_headers "''GET''" "[]"] a b
  have one: "\<forall>message. forwardRequest ?rt ?req1 (new_response\<lparr>outHeaders := preset_headers\<rparr>)
                 (QString ''https://example.test/echo'') ''GET'' []
               \<noteq> internal_error message (new_response\<lparr>outHeaders := preset_headers\<rparr>)"
    by auto
  from validated_url_reparses [OF v2, of ?req2 preset_headers "''GET''" "[]"] c d
  have two: "forwardRequest ?rt ?req2 (new_response\<lparr>outHeaders := preset_headers\<rparr>)
                 (QString ''data:text/plain, hello'') ''GET'' []
               = internal_error ''Request path contains unescaped characters''
                   (new_response\<lparr>outHeaders := preset_headers\<rparr>)"
    by auto
  from v1 one v2 two show ?thesis by blast
qed

subsection \<open>The headers of the outbound request\<close>

text \<open>
  What is sent under a name is the last property of \<^verbatim>\<open>options.headers\<close> whose
  name equals it up to case. The lemmas below find that property in the object literal
  of lines 117-126.
\<close>

lemma update_absent: "k \<notin> fst ` set al \<Longrightarrow> AList.update k v al = al @ [(k, v)]"
  by (induction al) auto

lemma filter_update_other:
  "f k \<noteq> n \<Longrightarrow> filter (\<lambda>kv. f (fst kv) = n) (AList.update k v al) = filter (\<lambda>kv. f (fst kv) = n) al"
  by (induction al) auto

lemma filter_update_only:
  assumes "distinct (map fst al)" and "f k = n" and "\<forall>k' \<in> fst ` set al. f k' = n \<longrightarrow> k' = k"
  shows "filter (\<lambda>kv. f (fst kv) = n) (AList.update k v al) = [(k, v)]"
  using assms
proof (induction al)
  case Nil
  then show ?case by simp
next
  case (Cons p al)
  obtain k' v' where p: "p = (k', v')" by (cases p)
  show ?case
  proof (cases "k' = k")
    case True
    have "k \<notin> fst ` set al"
      using Cons.prems(1) True p by simp
    moreover have "\<forall>q \<in> set al. f (fst q) = n \<longrightarrow> fst q = k"
      using Cons.prems(3) by simp
    ultimately have "\<forall>q \<in> set al. f (fst q) \<noteq> n"
      by (metis image_eqI)
    then have "filter (\<lambda>kv. f (fst kv) = n) al = []"
      by (simp add: filter_empty_conv)
    with True Cons.prems(2) show ?thesis by (simp add: p)
  next
    case False
    have "f k' \<noteq> n"
      using Cons.prems(3) False p by simp
    moreover have "filter (\<lambda>kv. f (fst kv) = n) (AList.update k v al) = [(k, v)]"
      using Cons.IH Cons.prems by simp
    ultimately show ?thesis
      using False by (simp add: p)
  qed
qed

lemma map_of_fold_setHeader:
  "map_of (fold (\<lambda>(k, v). setHeader k v) hdrs table) n =
     (case filter (\<lambda>kv. toLowerCase (fst kv) = n) hdrs of
        [] \<Rightarrow> map_of table n
      | p # ps \<Rightarrow> Some (last (p # ps)))"
proof (induction hdrs arbitrary: table)
  case Nil
  then show ?case by simp
next
  case (Cons kv hdrs)
  obtain k v where kv: "kv = (k, v)" by (cases kv)
  show ?case
    using Cons.IH [of "setHeader k v table"]
    by (simp add: kv setHeader_def update_conv' split: list.splits)
qed

lemma spread_keys_aux:
  "fst ` set (fold (\<lambda>(k, v). AList.update k v) obj acc) = fst ` set obj \<union> fst ` set acc"
proof (induction obj arbitrary: acc)
  case Nil
  then show ?case by simp
next
  case (Cons p obj)
  obtain k v where p: "p = (k, v)" by (cases p)
  have "fst ` set (fold (\<lambda>(k, v). AList.update k v) (p # obj) acc)
          = fst ` set obj \<union> fst ` set (AList.update k v acc)"
    using Cons.IH [of "AList.update k v acc"] by (simp add: p)
  also have "\<dots> = fst ` set (p # obj) \<union> fst ` set acc"
    by (simp add: dom_update p)
  finally show ?case .
qed

lemma spread_distinct_aux:
  "distinct (map fst acc) \<Longrightarrow> distinct (map fst (fold (\<lambda>(k, v). AList.update k v) obj acc))"
  by (induction obj arbitrary: acc) (auto simp: distinct_update)

lemma spread_keys: "fst ` set (spread obj) = fst ` set obj"
  by (simp add: spread_def spread_keys_aux)

lemma spread_distinct: "distinct (map fst (spread obj))"
  by (simp add: spread_def spread_distinct_aux)

lemma lower_names:
  "toLowerCase ''User-Agent'' = ''user-agent''"
  "toLowerCase ''user-agent'' = ''user-agent''"
  "toLowerCase ''host'' = ''host''"
  "toLowerCase ''accept-encoding'' = ''accept-encoding''"
  by (simp_all add: toLowerCase_def lower_char_def char_of_eq_iff)


lemma request_header_table_lookup:
  "getHeader (request_header_table hdrs) name =
     (case filter (\<lambda>kv. toLowerCase (fst kv) = toLowerCase name) hdrs of
        [] \<Rightarrow> None
      | p # ps \<Rightarrow> Some (snd (last (p # ps))))"
  by (simp add: getHeader_def request_header_table_def map_of_fold_setHeader split: list.splits)

lemma request_header_table_last:
  assumes "filter (\<lambda>kv. toLowerCase (fst kv) = toLowerCase name) hdrs = xs @ [(k, v)]"
  shows "getHeader (request_header_table hdrs) name = Some v"
proof -
  obtain p ps where pps: "xs @ [(k, v)] = p # ps"
    by (cases "xs @ [(k, v)]") auto
  then have "last (p # ps) = (k, v)"
    by (metis last_snoc)
  then show ?thesis
    using assms pps by (simp add: request_header_table_lookup)
qed

lemma forwardRequest_outbound_headers:
  assumes "URL_new rt (js_to_string targetUrl) = Inr u"
    and "outbound (forwardRequest rt req res0 targetUrl m body) = Some ob"
  shows "opt_headers (options ob) =
           AList.update ''accept-encoding'' (Single ''gzip, deflate'')
             (AList.update ''host'' (Single (hostname u))
               (AList.update ''User-Agent'' (Single proxy_user_agent)
                 (spread (req_headers req))))"
  using assms
  by (auto simp: forwardRequest_def Let_def internal_error_def finish_def request_options_for_def
      split: sum.splits prod.splits)

text \<open>
  C5. For every forwarded request the \<^verbatim>\<open>host\<close> header of the outbound request is
  the host name of the target URL, whatever the inbound request carried, its own
  \<^verbatim>\<open>host\<close> header included. The names in \<^verbatim>\<open>req.headers\<close> are lower-case, as
  Node delivers them.
\<close>

theorem outbound_host_header:
  assumes "\<forall>k \<in> fst ` set (req_headers req). toLowerCase k = k"
    and "URL_new rt (js_to_string targetUrl) = Inr u"
    and "outbound (forwardRequest rt req res0 targetUrl m body) = Some ob"
  shows "getHeader (request_header_table (opt_headers (options ob))) ''host'' = Some (Single (hostname u))"
proof -
  let ?hs = "spread (req_headers req)"
  let ?h1 = "AList.update ''User-Agent'' (Single proxy_user_agent) ?hs"
  let ?P = "\<lambda>kv. toLowerCase (fst kv) = ''host''"
  have d: "distinct (map fst ?h1)"
    by (simp add: distinct_update spread_distinct)
  have only: "\<forall>k' \<in> fst ` set ?h1. toLowerCase k' = ''host'' \<longrightarrow> k' = ''host''"
  proof
    fix k' assume "k' \<in> fst ` set ?h1"
    then have "k' = ''User-Agent'' \<or> k' \<in> fst ` set (req_headers req)"
      by (simp add: dom_update spread_keys)
    then show "toLowerCase k' = ''host'' \<longrightarrow> k' = ''host''"
      using assms(1) by (auto simp: lower_names)
  qed
  have "filter ?P (AList.update ''accept-encoding'' (Single ''gzip, deflate'')
                    (AList.update ''host'' (Single (hostname u)) ?h1))
          = filter ?P (AList.update ''host'' (Single (hostname u)) ?h1)"
    by (rule filter_update_other) (simp add: lower_names)
  also have "\<dots> = [(''host'', Single (hostname u))]"
    by (rule filter_update_only [OF d _ only]) (simp add: lower_names)
  finally have "filter (\<lambda>kv. toLowerCase (fst kv) = toLowerCase ''host'') (opt_headers (options ob))
                  = [] @ [(''host'', Single (hostname u))]"
    by (simp add: forwardRequest_outbound_headers [OF assms(2,3)] lower_names)
  then show ?thesis
    by (rule request_header_table_last)
qed

theorem outbound_host_header_witness:
  "map_of (req_headers (example_request ''GET'' ''/proxy?url=https://example.test/echo'' [])) ''host''
     = Some (Single ''localhost:3000'')
   \<and> (\<exists>ob. outbound (forwardRequest (example_runtime (emits []))
               (example_request ''GET'' ''/proxy?url=https://example.test/echo'' [])
               (new_response\<lparr>outHeaders := preset_headers\<rparr>)
               (QString ''https://example.test/echo'') ''GET'' []) = Some ob
          \<and> getHeader (request_header_table (opt_headers (options ob))) ''host''
               = Some (Single ''example.test''))"
proof -
  let ?rt = "example_runtime (emits [])"
  let ?req = "example_request ''GET'' ''/proxy?url=https://example.test/echo'' []"
  let ?out = "forwardRequest ?rt ?req (new_response\<lparr>outHeaders := preset_headers\<rparr>)
                (QString ''https://example.test/echo'') ''GET'' []"
  have lower: "\<forall>k \<in> fst ` set (req_headers ?req). toLowerCase k = k"
    by (simp add: example_request_def toLowerCase_def lower_char_def)
  have url: "URL_new ?rt (js_to_string (QString ''https://example.test/echo'')) = Inr echo_url"
    by (simp add: example_runtime_def example_URL_new_def)
  have net: "request ?rt (if protocol echo_url = ''https:'' then Https else Http)
               (request_options_for echo_url ?req ''GET'') = Inr (\<lambda>w. [])"
    by (simp add: example_runtime_def emits_def)
  obtain ob where ob: "outbound ?out = Some ob"
    by (simp add: forwardRequest_forwarded [OF url net])
  have "getHeader (request_header_table (opt_headers (options ob))) ''host'' = Some (Single ''example.test'')"
    using outbound_host_header [OF lower url ob] by (simp add: echo_url_def)
  with ob show ?thesis
    by (simp add: example_request_def)
qed

text \<open>
  C6. For every forwarded request the \<^verbatim>\<open>user-agent\<close> header of the outbound
  request is the fixed string \<^verbatim>\<open>NetSuite-Proxy/1.0.0 (Mozilla/5.0)\<close>, also when the
  inbound request has a \<^verbatim>\<open>user-agent\<close> of its own: the literal adds the property
  \<^verbatim>\<open>User-Agent\<close> after the copied ones, and the later of the two names is sent.
\<close>

theorem outbound_user_agent_header:
  assumes "\<forall>k \<in> fst ` set (req_headers req). toLowerCase k = k"
    and "URL_new rt (js_to_string targetUrl) = Inr u"
    and "outbound (forwardRequest rt req res0 targetUrl m body) = Some ob"
  shows "getHeader (request_header_table (opt_headers (options ob))) ''user-agent''
           = Some (Single ''NetSuite-Proxy/1.0.0 (Mozilla/5.0)'')"
proof -
  let ?hs = "spread (req_headers req)"
  let ?ua = "Single ''NetSuite-Proxy/1.0.0 (Mozilla/5.0)''"
  let ?P = "\<lambda>kv. toLowerCase (fst kv) = ''user-agent''"
  have "toLowerCase ''User-Agent'' \<noteq> ''User-Agent''"
    by (simp add: lower_names)
  then have "''User-Agent'' \<notin> fst ` set (req_headers req)"
    using assms(1) by blast
  then have app: "AList.update ''User-Agent'' ?ua ?hs = ?hs @ [(''User-Agent'', ?ua)]"
    by (simp add: update_absent spread_keys)
  have "filter ?P (AList.update ''accept-encoding'' (Single ''gzip, deflate'')
                    (AList.update ''host'' (Single (hostname u))
                      (AList.update ''User-Agent'' ?ua ?hs)))
          = filter ?P (AList.update ''host'' (Single (hostname u)) (AList.update ''User-Agent'' ?ua ?hs))"
    by (rule filter_update_other) (simp add: lower_names)
  also have "\<dots> = filter ?P (AList.update ''User-Agent'' ?ua ?hs)"
    by (rule filter_update_other) (simp add: lower_names)
  also have "\<dots> = filter ?P ?hs @ [(''User-Agent'', ?ua)]"
    by (simp add: app lower_names)
  finally have "filter (\<lambda>kv. toLowerCase (fst kv) = toLowerCase ''user-agent'') (opt_headers (options ob))
                  = filter ?P ?hs @ [(''User-Agent'', ?ua)]"
    by (simp add: forwardRequest_outbound_headers [OF assms(2,3)] lower_names proxy_user_agent_def)
  then show ?thesis
    by (rule request_header_table_last)
qed

theorem outbound_user_agent_header_witness:
  "map_of (req_headers (example_request ''GET'' ''/proxy?url=https://example.test/echo'' [])) ''user-agent''
     = Some (Single ''curl/8.0'')
   \<and> (\<exists>ob. outbound (forwardRequest (example_runtime (emits []))
               (example_request ''GET'' ''/proxy?url=https://example.test/echo'' [])
               (new_response\<lparr>outHeaders := preset_headers\<rparr>)
               (QString ''https://example.test/echo'') ''GET'' []) = Some ob
          \<and> getHeader (request_header_table (opt_headers (options ob))) ''user-agent''
               = Some (Single ''NetSuite-Proxy/1.0.0 (Mozilla/5.0)''))"
proof -
  let ?rt = "example_runtime (emits [])"
  let ?req = "example_request ''GET'' ''/proxy?url=https://example.test/echo'' []"
  let ?out = "forwardRequest ?rt ?req (new_response\<lparr>outHeaders := preset_headers\<rparr>)
                (QString ''https://example.test/echo'') ''GET'' []"
  have lower: "\<forall>k \<in> fst ` set (req_headers ?req). toLowerCase k = k"
    by (simp add: example_request_def toLowerCase_def lower_char_def)
  have url: "URL_new ?rt (js_to_string (QString ''https://example.test/echo'')) = Inr echo_url"
    by (simp add: example_runtime_def example_URL_new_def)
  have net: "request ?rt (if protocol echo_url = ''https:'' then Https else Http)
               (request_options_for echo_url ?req ''GET'') = Inr (\<lambda>w. [])"
    by (simp add: example_runtime_def emits_def)
  obtain ob where ob: "outbound ?out = Some ob"
    by (simp add: forwardRequest_forwarded [OF url net])
  have "getHeader (request_header_table (opt_headers (options ob))) ''user-agent''
          = Some (Single ''NetSuite-Proxy/1.0.0 (Mozilla/5.0)'')"
    using outbound_user_agent_header [OF lower url ob] .
  with ob show ?thesis
    by (simp add: example_request_def)
qed

subsection \<open>Response relay\<close>

lemma utf8_decode_ascii:
  "\<forall>c \<in> set cs. (of_char c :: nat) < 128 \<Longrightarrow> utf8_decode 0 0 0x80 0xBF cs = map of_char cs"
  by (induction cs) simp_all

lemma utf8_encode_ascii:
  "\<forall>c \<in> set cs. (of_char c :: nat) < 128 \<Longrightarrow> utf8_encode (toString cs) = cs"
  by (induction cs) (simp_all add: toString_def utf8_decode_ascii utf8_encode_def utf8_encode_char_def)

lemma utf8_encode_append: "utf8_encode (s @ t) = utf8_encode s @ utf8_encode t"
  by (simp add: utf8_encode_def)

lemma utf8_encode_chunks:
  "\<forall>c \<in> set chunks. utf8_encode (toString c) = c
     \<Longrightarrow> utf8_encode (concat (map toString chunks)) = concat chunks"
  by (induction chunks) (simp_all add: utf8_encode_append, simp add: utf8_encode_def)

lemma setHeaders_filter:
  "setHeaders obj table = fold (\<lambda>(k, v). setHeader k v) (filter (\<lambda>kv. fst kv \<noteq> []) obj) table"
  unfolding setHeaders_def
  by (induction obj arbitrary: table) (auto split: prod.splits)

lemma filter_distinct_key:
  assumes "distinct (map g xs)" and "x \<in> set xs"
  shows "filter (\<lambda>y. g y = g x) xs = [x]"
  using assms
proof (induction xs)
  case Nil
  then show ?case by simp
next
  case (Cons a xs)
  show ?case
  proof (cases "a = x")
    case True
    with Cons.prems(1) have "g x \<notin> g ` set xs" by simp
    then have "\<forall>y \<in> set xs. g y \<noteq> g x" by (metis imageI)
    then have "filter (\<lambda>y. g y = g x) xs = []"
      by (simp add: filter_empty_conv)
    with True show ?thesis by simp
  next
    case False
    with Cons.prems have "x \<in> set xs" by simp
    moreover from this Cons.prems(1) have "g a \<noteq> g x" by auto
    ultimately show ?thesis using Cons by simp
  qed
qed

lemma getHeader_setHeaders_present:
  assumes "distinct (map (toLowerCase \<circ> fst) hdrs)" and "(k, v) \<in> set hdrs" and "k \<noteq> []"
  shows "getHeader (setHeaders hdrs table) k = Some v"
proof -
  let ?hs = "filter (\<lambda>kv. fst kv \<noteq> []) hdrs"
  have "distinct (map (toLowerCase \<circ> fst) ?hs)"
    using assms(1) by (simp add: distinct_map_filter)
  moreover have "(k, v) \<in> set ?hs"
    using assms(2,3) by simp
  ultimately have "filter (\<lambda>y. (toLowerCase \<circ> fst) y = (toLowerCase \<circ> fst) (k, v)) ?hs = [(k, v)]"
    by (rule filter_distinct_key)
  then have "filter (\<lambda>kv. toLowerCase (fst kv) = toLowerCase k) ?hs = [(k, v)]"
    by simp
  then show ?thesis
    by (simp add: getHeader_def setHeaders_filter map_of_fold_setHeader)
qed

lemma getHeader_setHeaders_absent:
  assumes "toLowerCase name \<notin> toLowerCase ` fst ` set hdrs"
  shows "getHeader (setHeaders hdrs table) name = getHeader table name"
proof -
  have "\<forall>kv \<in> set hdrs. toLowerCase (fst kv) \<noteq> toLowerCase name"
    using assms by (metis imageI)
  then have "filter (\<lambda>kv. toLowerCase (fst kv) = toLowerCase name) (filter (\<lambda>kv. fst kv \<noteq> []) hdrs) = []"
    by (simp add: filter_empty_conv)
  then show ?thesis
    by (simp add: getHeader_def setHeaders_filter map_of_fold_setHeader)
qed

lemma run_events_response:
  assumes "statusCode r = None" and "ended r = None" and "100 \<le> status" and "status \<le> 999"
  shows "run_events \<lparr>res = r, proxyRes = None, responseBody = []\<rparr>
           (Response status hdrs # map Data chunks @ [End])
         = (\<lparr>res = r\<lparr>outHeaders := setHeaders hdrs (outHeaders r), statusCode := Some status,
                       ended := Some (Text (concat (map toString chunks)))\<rparr>,
             proxyRes = Some (status, hdrs), responseBody = concat (map toString chunks)\<rparr>, None)"
proof -
  let ?x1 = "\<lparr>res = r, proxyRes = Some (status, hdrs), responseBody = []\<rparr>"
  have "run_events \<lparr>res = r, proxyRes = None, responseBody = []\<rparr>
          (Response status hdrs # map Data chunks @ [End])
        = run_events ?x1 (map Data chunks @ [End])"
    by simp
  also have "\<dots> = run_events (?x1\<lparr>responseBody := responseBody ?x1 @ concat (map toString chunks)\<rparr>) [End]"
    by (rule run_events_data) simp
  also have "\<dots> = (\<lparr>res = r\<lparr>outHeaders := setHeaders hdrs (outHeaders r), statusCode := Some status,
                       ended := Some (Text (concat (map toString chunks)))\<rparr>,
             proxyRes = Some (status, hdrs), responseBody = concat (map toString chunks)\<rparr>, None)"
    using assms by (simp add: send_fresh)
  finally show ?thesis .
qed

text \<open>
  C1, as amended. When the target answers the request that was made (the callback with
  a status code 100..999 and the headers, the chunks, then the end), the caller
  receives the target's status code; every header of the target with the target's
  value; besides them the headers that were set on the response before (the
  dispatcher's CORS headers and \<^verbatim>\<open>Content-Type: application/json\<close>), each unless
  the target sent a header of that name; and as body the chunks decoded and
  concatenated, which is the target's body byte for byte when every chunk is
  well-formed UTF-8 on its own. The names of \<^verbatim>\<open>proxyRes.headers\<close> are distinct up
  to case and not empty, as Node delivers them. The claim as stated fails on the
  headers, which are a merge and not the target's set, and on bodies that are not such
  text (the counterexample below: the dispatcher's five headers are relayed with a
  target that sent one, and a body of the single byte 0xFF comes back as the three
  bytes of U+FFFD).
\<close>

theorem response_relay:
  assumes "URL_new rt (js_to_string targetUrl) = Inr u"
    and "request rt (if protocol u = ''https:'' then Https else Http) (request_options_for u req m)
           = Inr proxyReq"
    and "proxyReq (if body \<noteq> [] then Some body else None)
           = Response status hdrs # map Data chunks @ [End]"
    and "100 \<le> status" and "status \<le> 999"
    and "distinct (map (toLowerCase \<circ> fst) hdrs)" and "[] \<notin> fst ` set hdrs"
    and "\<forall>c \<in> set chunks. utf8_encode (toString c) = c"
  shows "(let out = forwardRequest rt req (new_response\<lparr>outHeaders := h\<rparr>) targetUrl m body in
          statusCode (response out) = Some status
        \<and> (\<forall>(k, v) \<in> set hdrs. getHeader (outHeaders (response out)) k = Some v)
        \<and> (\<forall>name. toLowerCase name \<notin> toLowerCase ` fst ` set hdrs
              \<longrightarrow> getHeader (outHeaders (response out)) name = getHeader h name)
        \<and> ended (response out) = Some (Text (concat (map toString chunks)))
        \<and> utf8_encode (concat (map toString chunks)) = concat chunks)"
proof -
  let ?out = "forwardRequest rt req (new_response\<lparr>outHeaders := h\<rparr>) targetUrl m body"
  have run: "run_events \<lparr>res = new_response\<lparr>outHeaders := h\<rparr>, proxyRes = None, responseBody = []\<rparr>
               (Response status hdrs # map Data chunks @ [End])
             = (\<lparr>res = \<lparr>outHeaders = setHeaders hdrs h, statusCode = Some status,
                         ended = Some (Text (concat (map toString chunks)))\<rparr>,
                 proxyRes = Some (status, hdrs), responseBody = concat (map toString chunks)\<rparr>, None)"
    using run_events_response [of "new_response\<lparr>outHeaders := h\<rparr>" status hdrs chunks] assms(4,5)
    by (simp add: new_response_def)
  have resp: "response ?out = \<lparr>outHeaders = setHeaders hdrs h, statusCode = Some status,
                                ended = Some (Text (concat (map toString chunks)))\<rparr>"
    by (simp only: forwardRequest_forwarded [OF assms(1,2)] assms(3) run) simp
  have present: "\<forall>(k, v) \<in> set hdrs. getHeader (setHeaders hdrs h) k = Some v"
  proof (clarify)
    fix k v assume kv: "(k, v) \<in> set hdrs"
    with assms(7) have "k \<noteq> []" by force
    with assms(6) kv show "getHeader (setHeaders hdrs h) k = Some v"
      by (rule getHeader_setHeaders_present)
  qed
  have absent: "\<forall>name. toLowerCase name \<notin> toLowerCase ` fst ` set hdrs
                   \<longrightarrow> getHeader (setHeaders hdrs h) name = getHeader h name"
    by (simp add: getHeader_setHeaders_absent)
  have body: "utf8_encode (concat (map toString chunks)) = concat chunks"
    using assms(8) by (rule utf8_encode_chunks)
  show ?thesis
    using present absent body by (simp add: Let_def resp)
qed

theorem response_relay_witness:
  "(let out = forwardRequest (example_runtime echo_target)
                (example_request ''POST'' ''/proxy?url=https://example.test/echo'' [''key=value''])
                (new_response\<lparr>outHeaders := preset_headers\<rparr>)
                (QString ''https://example.test/echo'') ''POST'' (toString ''key=value'') in
      statusCode (response out) = Some 200
    \<and> getHeader (outHeaders (response out)) ''content-type'' = Some (Single ''application/json'')
    \<and> getHeader (outHeaders (response out)) ''access-control-allow-origin'' = Some (Single ''*'')
    \<and> ended (response out) = Some (Text (concat (map toString [''key=value''])))
    \<and> utf8_encode (concat (map toString [''key=value''])) = ''key=value'')"
proof -
  let ?hdrs = "[(''content-type'', Single ''application/json'')]"
  let ?chunks = "[''key=value'']"
  let ?rt = "example_runtime echo_target"
  let ?req = "example_request ''POST'' ''/proxy?url=https://example.test/echo'' [''key=value'']"
  let ?c = "\<lambda>w. Response 200 ?hdrs # (case w of None \<Rightarrow> [] | Some b \<Rightarrow> [Data (utf8_encode b)]) @ [End]"
  have ascii: "utf8_encode (toString ''key=value'') = ''key=value''"
    by (rule utf8_encode_ascii) simp
  have url: "URL_new ?rt (js_to_string (QString ''https://example.test/echo'')) = Inr echo_url"
    by (simp add: example_runtime_def example_URL_new_def)
  have net: "request ?rt (if protocol echo_url = ''https:'' then Https else Http)
               (request_options_for echo_url ?req ''POST'') = Inr ?c"
    by (simp add: example_runtime_def echo_target_def)
  have body: "toString ''key=value'' \<noteq> []"
    by (simp add: toString_def)
  have evs: "?c (if toString ''key=value'' \<noteq> [] then Some (toString ''key=value'') else None)
               = Response 200 ?hdrs # map Data ?chunks @ [End]"
    using body by (simp add: ascii)
  have lo: "(100::nat) \<le> 200" and hi: "(200::nat) \<le> 999"
    by simp_all
  have d: "distinct (map (toLowerCase \<circ> fst) ?hdrs)" and ne: "[] \<notin> fst ` set ?hdrs"
    by simp_all
  have wf: "\<forall>c \<in> set ?chunks. utf8_encode (toString c) = c"
    by (simp add: ascii)
  have absent: "toLowerCase ''access-control-allow-origin'' \<notin> toLowerCase ` fst ` set ?hdrs"
    by (simp add: toLowerCase_def lower_char_def)
  have preset: "getHeader preset_headers ''access-control-allow-origin'' = Some (Single ''*'')"
    by (simp add: getHeader_def preset_headers_def setHeader_def toLowerCase_def lower_char_def
        char_of_eq_iff eq_char_of_iff)
  show ?thesis
    using response_relay [OF url net evs lo hi d ne wf, of preset_headers] absent preset
    by (simp add: Let_def)
qed

theorem response_relay_counterexample:
  "statusCode (response (server
       (example_runtime (emits [Response 200 [(''content-type'', Single ''application/octet-stream'')],
                                Data [CHR 0xFF], End]))
       (example_request ''GET'' ''/proxy?url=https://example.test/echo'' []))) = Some 200
   \<and> map_of [(''content-type'', Single ''application/octet-stream'')] ''access-control-allow-origin'' = None
   \<and> getHeader (outHeaders (response (server
       (example_runtime (emits [Response 200 [(''content-type'', Single ''application/octet-stream'')],
                                Data [CHR 0xFF], End]))
       (example_request ''GET'' ''/proxy?url=https://example.test/echo'' [])))) ''access-control-allow-origin''
      = Some (Single ''*'')
   \<and> length (outHeaders (response (server
       (example_runtime (emits [Response 200 [(''content-type'', Single ''application/octet-stream'')],
                                Data [CHR 0xFF], End]))
       (example_request ''GET'' ''/proxy?url=https://example.test/echo'' [])))) = 5
   \<and> ended (response (server
       (example_runtime (emits [Response 200 [(''content-type'', Single ''application/octet-stream'')],
                                Data [CHR 0xFF], End]))
       (example_request ''GET'' ''/proxy?url=https://example.test/echo'' []))) = Some (Text [0xFFFD])
   \<and> utf8_encode [0xFFFD] = [CHR 0xEF, CHR 0xBF, CHR 0xBD]
   \<and> utf8_encode [0xFFFD] \<noteq> [CHR 0xFF]"
  by (simp add: server_def example_runtime_def example_request_def example_url_parse_def proxy_query_def
      handleProxy_def isValidUrl_def example_URL_new_def forwardRequest_def Let_def emits_def
      send_fresh new_response_def echo_url_def
      setHeaders_def getHeader_def preset_headers_def setHeader_def toLowerCase_def lower_char_def
      toString_def utf8_encode_def utf8_encode_char_def char_of_eq_iff eq_char_of_iff)

subsection \<open>Failure mapping\<close>

text \<open>
  C7, at a failing input. The target sends the head of its response and a part of the
  body, and the connection breaks. Node reports this on \<^verbatim>\<open>proxyRes\<close>, where the
  source has listeners for \<^verbatim>\<open>'data'\<close> and \<^verbatim>\<open>'end'\<close> only (lines 137-146):
  the events the program sees end after the chunk. The request was made, and the
  caller gets no response: no status, no body, no 502.
\<close>

theorem response_failure_is_not_handled:
  "(let out = forwardRequest (example_runtime (emits [Response 200 [(''content-type'', Single ''text/plain'')],
                                                       Data ''par'']))
                (example_request ''GET'' ''/proxy?url=https://example.test/echo'' [])
                (new_response\<lparr>outHeaders := preset_headers\<rparr>)
                (QString ''https://example.test/echo'') ''GET'' [] in
      outbound out \<noteq> None
    \<and> statusCode (response out) = None \<and> ended (response out) = None \<and> uncaught out = None)"
  by (simp add: example_runtime_def example_URL_new_def echo_url_def
      example_request_def forwardRequest_def request_options_for_def Let_def emits_def
      send_fresh new_response_def)

text \<open>
  Where the failure mapping works: when the outbound request that was made emits
  \<^verbatim>\<open>'error'\<close> (lines 149-156) before any response has ended, the caller receives
  status 502, the headers set on the response before, and the JSON body whose
  \<^verbatim>\<open>error\<close> field is \<^verbatim>\<open>Failed to reach external URL\<close> and whose
  \<^verbatim>\<open>message\<close> field is the message of the error. Events before the error that
  are neither an error nor the end of a response (timeouts, say) change nothing, and
  nothing that follows changes the response.
\<close>

theorem network_error_gives_502:
  assumes "URL_new rt (js_to_string targetUrl) = Inr u"
    and "request rt (if protocol u = ''https:'' then Https else Http) (request_options_for u req m)
           = Inr proxyReq"
    and "proxyReq (if body \<noteq> [] then Some body else None) = pre @ Error message # post"
    and "End \<notin> set pre" and "\<forall>m. Error m \<notin> set pre"
  shows "(let out = forwardRequest rt req (new_response\<lparr>outHeaders := h\<rparr>) targetUrl m body in
          statusCode (response out) = Some 502
        \<and> json_field (ended (response out)) ''error'' = Some (JString ''Failed to reach external URL'')
        \<and> json_field (ended (response out)) ''message'' = Some (JString message)
        \<and> outHeaders (response out) = h)"
proof -
  let ?x0 = "\<lparr>res = new_response\<lparr>outHeaders := h\<rparr>, proxyRes = None, responseBody = []\<rparr>"
  let ?r = "\<lparr>outHeaders = h, statusCode = Some 502,
             ended = Some (JSON_stringify (JObject [(''error'', JString ''Failed to reach external URL''),
                                                    (''message'', JString message)]))\<rparr>"
  obtain x' where x': "run_events ?x0 (pre @ Error message # post) = run_events x' (Error message # post)"
      "res x' = res ?x0"
    using run_events_append_quiet [OF assms(4,5)] by blast
  have step: "on_event x' (Error message) = Inr (x'\<lparr>res := ?r\<rparr>)"
    using x'(2) by (simp add: send_fresh new_response_def setHeaders_Nil)
  have "res (fst (run_events (x'\<lparr>res := ?r\<rparr>) post)) = ?r"
    using run_events_sent [of "x'\<lparr>res := ?r\<rparr>" post] by simp
  then have "res (fst (run_events ?x0 (pre @ Error message # post))) = ?r"
    using x'(1) step by simp
  then show ?thesis
    by (simp add: forwardRequest_forwarded [OF assms(1,2)] assms(3) Let_def)
qed

theorem network_error_gives_502_witness:
  "(let out = forwardRequest
                (example_runtime (emits ([Timeout] @ Error ''connect ECONNREFUSED 127.0.0.1:1'' # [])))
                (example_request ''GET'' ''/proxy?url=https://example.test/echo'' [])
                (new_response\<lparr>outHeaders := preset_headers\<rparr>)
                (QString ''https://example.test/echo'') ''GET'' [] in
      statusCode (response out) = Some 502
    \<and> json_field (ended (response out)) ''error'' = Some (JString ''Failed to reach external URL'')
    \<and> json_field (ended (response out)) ''message'' = Some (JString ''connect ECONNREFUSED 127.0.0.1:1'')
    \<and> outHeaders (response out) = preset_headers)"
proof -
  let ?evs = "[Timeout] @ Error ''connect ECONNREFUSED 127.0.0.1:1'' # []"
  let ?rt = "example_runtime (emits ?evs)"
  let ?req = "example_request ''GET'' ''/proxy?url=https://example.test/echo'' []"
  have a: "URL_new ?rt (js_to_string (QString ''https://example.test/echo'')) = Inr echo_url"
    by (simp add: example_runtime_def example_URL_new_def)
  have b: "request ?rt (if protocol echo_url = ''https:'' then Https else Http)
             (request_options_for echo_url ?req ''GET'') = Inr (\<lambda>w. ?evs)"
    by (simp add: example_runtime_def emits_def)
  have c: "(\<lambda>w. ?evs) (if ([]::ustring) \<noteq> [] then Some [] else None) = ?evs"
    by simp
  have d: "End \<notin> set [Timeout]" and e: "\<forall>m. Error m \<notin> set [Timeout]"
    by simp_all
  show ?thesis
    by (rule network_error_gives_502 [OF a b c d e])
qed

subsection \<open>The timeout\<close>

text \<open>
  C2, at a failing input. \<^verbatim>\<open>forwardRequest\<close> passes \<^verbatim>\<open>timeout: 30000\<close> in the
  options and registers no listener for the \<^verbatim>\<open>'timeout'\<close> event, so the event
  changes nothing. For a target that stays silent, the request is made and the caller
  gets no response from the engine: no status, no body, no 502. For a target that
  answers after the timeout has fired, the late response is relayed, not discarded.
\<close>

theorem timeout_is_not_handled:
  "(let out = forwardRequest (example_runtime (emits [Timeout]))
                (example_request ''GET'' ''/proxy?url=https://example.test/echo'' [])
                (new_response\<lparr>outHeaders := preset_headers\<rparr>)
                (QString ''https://example.test/echo'') ''GET'' [] in
      map_option (opt_timeout \<circ> options) (outbound out) = Some 30000
    \<and> statusCode (response out) = None \<and> ended (response out) = None \<and> uncaught out = None)
   \<and> (let out = forwardRequest (example_runtime (emits [Timeout, Response 200 [], Data ''late'', End]))
                (example_request ''GET'' ''/proxy?url=https://example.test/echo'' [])
                (new_response\<lparr>outHeaders := preset_headers\<rparr>)
                (QString ''https://example.test/echo'') ''GET'' [] in
      statusCode (response out) = Some 200 \<and> ended (response out) = Some (Text (toString ''late'')))"
  by (simp add: example_runtime_def example_URL_new_def echo_url_def
      example_request_def forwardRequest_def request_options_for_def Let_def emits_def
      send_fresh new_response_def)

end
